theory Spec2Isabelle
  imports Complex_Main "HOL-Library.Sublist"
begin

section \<open>The unified deployment orchestrator (unified-deployment.py)\<close>

text \<open>
  A shallow embedding of \<^verbatim>\<open>UnifiedOrchestrator\<close> and \<^verbatim>\<open>main\<close>.
  Every call that leaves the process (\<^verbatim>\<open>subprocess.run\<close>, opening the dashboard
  file) is answered by a \<^emph>\<open>world\<close>: a function of the number of calls made so far
  and of the call itself, so that the same command may be answered differently at
  different moments of a run. Exceptions are values of a sum type. Python's float
  arithmetic on utilisation readings is modelled by exact rational arithmetic.
\<close>

subsection \<open>Host registry\<close>

record SystemConfig =
  name :: string
  type :: string
  host :: string
  gpu_count :: nat
  vram_total :: string
  role :: string
  priority :: int

definition load_system_configs :: "SystemConfig list" where
  "load_system_configs =
    [\<lparr>name = ''mac-studio'', type = ''mac'', host = ''localhost'', gpu_count = 0,
      vram_total = ''0GB'', role = ''development_control'', priority = 1\<rparr>,
     \<lparr>name = ''dgx-spark'', type = ''dgx-spark'', host = ''dgx-spark.lab'', gpu_count = 2,
      vram_total = ''160GB'', role = ''orchestration_gateway'', priority = 2\<rparr>,
     \<lparr>name = ''hpc-1'', type = ''hpc'', host = ''hpc-1.lab'', gpu_count = 2,
      vram_total = ''192GB'', role = ''primary_inference'', priority = 3\<rparr>,
     \<lparr>name = ''hpc-2'', type = ''hpc'', host = ''hpc-2.lab'', gpu_count = 3,
      vram_total = ''96GB'', role = ''multi_user_serving'', priority = 4\<rparr>,
     \<lparr>name = ''hpc-3'', type = ''hpc'', host = ''hpc-3.lab'', gpu_count = 1,
      vram_total = ''48GB'', role = ''development_backup'', priority = 5\<rparr>]"

text \<open>\<^verbatim>\<open>self.systems\<close>, set once in \<^verbatim>\<open>__init__\<close> and never reassigned.\<close>

definition systems :: "SystemConfig list" where
  "systems = load_system_configs"

datatype exn =
    StopIteration
  | ValueError
  | ZeroDivisionError
  | CalledProcessError
  | SubprocessError
  | OSError
  | SystemExit

text \<open>\<^verbatim>\<open>next(s for s in xs if p(s))\<close>: the first match, or \<^verbatim>\<open>StopIteration\<close>.\<close>

definition next_where :: "('a \<Rightarrow> bool) \<Rightarrow> 'a list \<Rightarrow> exn + 'a" where
  "next_where p xs = (case List.find p xs of None \<Rightarrow> Inl StopIteration | Some x \<Rightarrow> Inr x)"

subsection \<open>The world outside the process\<close>

text \<open>
  \<open>Run argv\<close> is \<^verbatim>\<open>subprocess.run(argv, ...)\<close>, \<open>Shell cmd\<close> is
  \<^verbatim>\<open>subprocess.run(cmd, shell=True, ...)\<close>, \<open>Write_file path\<close> is opening \<open>path\<close>
  for writing and dumping JSON into it. \<open>Raised\<close> stands for any \<^verbatim>\<open>Exception\<close> of the
  call (a timeout, a missing executable, an I/O error); \<open>Exited rc out\<close> is a completed
  call with its return code and captured standard output.
\<close>

datatype call = Run "string list" | Shell string | Write_file string

datatype outcome = Raised | Exited int string

type_synonym world = "nat \<Rightarrow> call \<Rightarrow> outcome"

text \<open>
  The mutable state of a run: how many outside calls have been made, and the
  \<^verbatim>\<open>current_score\<close> attribute that \<^verbatim>\<open>select_optimal_system\<close> attaches to the shared
  host objects, keyed by host name (absent until first attached).
\<close>

record state =
  clock :: nat
  current_score :: "string \<rightharpoonup> rat"

definition perform :: "world \<Rightarrow> state \<Rightarrow> call \<Rightarrow> outcome \<times> state" where
  "perform w st c = (w (clock st) c, st\<lparr>clock := Suc (clock st)\<rparr>)"

subsection \<open>String primitives of Python used by the telemetry parser\<close>

definition py_isspace :: "char \<Rightarrow> bool" where
  "py_isspace c = (let n = (of_char c :: nat) in
     (9 \<le> n \<and> n \<le> 13) \<or> (28 \<le> n \<and> n \<le> 32) \<or> n = 133 \<or> n = 160)"

definition py_strip :: "string \<Rightarrow> string" where
  "py_strip s = rev (dropWhile py_isspace (rev (dropWhile py_isspace s)))"

text \<open>\<^verbatim>\<open>s.split(sep)\<close> for a non-empty separator: empty pieces are kept.\<close>

function py_split_from :: "string \<Rightarrow> string \<Rightarrow> string \<Rightarrow> string list" where
  "py_split_from sep acc [] = [rev acc]"
| "py_split_from sep acc (c # cs) =
     (if sep \<noteq> [] \<and> take (length sep) (c # cs) = sep
      then rev acc # py_split_from sep [] (drop (length sep) (c # cs))
      else py_split_from sep (c # acc) cs)"
  by pat_completeness auto
termination
  by (relation "measure (\<lambda>(sep, acc, s). length s)") auto

definition py_split :: "string \<Rightarrow> string \<Rightarrow> string list" where
  "py_split sep s = py_split_from sep [] s"

definition is_digit :: "char \<Rightarrow> bool" where
  "is_digit c = (48 \<le> (of_char c :: nat) \<and> (of_char c :: nat) \<le> 57)"

definition digit_value :: "char \<Rightarrow> nat" where
  "digit_value c = of_char c - 48"

text \<open>The digits after the first one; single underscores may separate digits.\<close>

fun int_digits :: "nat \<Rightarrow> string \<Rightarrow> nat option" where
  "int_digits acc [] = Some acc"
| "int_digits acc [c] = (if is_digit c then Some (10 * acc + digit_value c) else None)"
| "int_digits acc (c # d # ds) =
     (if is_digit c then int_digits (10 * acc + digit_value c) (d # ds)
      else if c = CHR ''_'' \<and> is_digit d then int_digits (10 * acc + digit_value d) ds
      else None)"

definition int_unsigned :: "string \<Rightarrow> nat option" where
  "int_unsigned s = (case s of [] \<Rightarrow> None
     | c # cs \<Rightarrow> if is_digit c then int_digits (digit_value c) cs else None)"

text \<open>\<^verbatim>\<open>int(s)\<close> in base ten; \<open>None\<close> is \<^verbatim>\<open>ValueError\<close>.\<close>

definition py_int :: "string \<Rightarrow> int option" where
  "py_int s = (case py_strip s of [] \<Rightarrow> None
     | c # cs \<Rightarrow>
        if c = CHR ''-'' then map_option (\<lambda>n. - int n) (int_unsigned cs)
        else if c = CHR ''+'' then map_option int (int_unsigned cs)
        else map_option int (int_unsigned (c # cs)))"

text \<open>\<^verbatim>\<open>a / b\<close> on numbers.\<close>

definition py_truediv :: "rat \<Rightarrow> rat \<Rightarrow> exn + rat" where
  "py_truediv a b = (if b = 0 then Inl ZeroDivisionError else Inr (a / b))"

subsection \<open>Availability prober\<close>

text \<open>The body of the \<^verbatim>\<open>try\<close> block of \<^verbatim>\<open>check_system_availability\<close>.\<close>

definition check_system_availability_try ::
  "world \<Rightarrow> state \<Rightarrow> SystemConfig \<Rightarrow> (exn + bool) \<times> state" where
  "check_system_availability_try w st system =
     (case perform w st (Run [''ping'', ''-c'', ''1'', host system]) of
        (Raised, st1) \<Rightarrow> (Inl SubprocessError, st1)
      | (Exited rc out, st1) \<Rightarrow>
          if rc \<noteq> 0 then (Inr False, st1)
          else (case perform w st1
                       (Run [''ssh'', ''-o'', ''ConnectTimeout=5'', host system,
                            ''echo '' @ [CHR 0x22] @ ''ok'' @ [CHR 0x22]]) of
                  (Raised, st2) \<Rightarrow> (Inl SubprocessError, st2)
                | (Exited rc2 out2, st2) \<Rightarrow> (Inr (rc2 = 0), st2)))"

definition check_system_availability ::
  "world \<Rightarrow> state \<Rightarrow> SystemConfig \<Rightarrow> bool \<times> state" where
  "check_system_availability w st system =
     (if type system = ''mac'' then (True, st)
      else (case check_system_availability_try w st system of
              (Inl e, st') \<Rightarrow> (False, st')
            | (Inr b, st') \<Rightarrow> (b, st')))"

subsection \<open>Resource telemetry collector\<close>

record gpu =
  utilization :: int
  memory_used :: int
  memory_total :: int
  memory_percent :: rat

text \<open>
  The three dictionaries \<^verbatim>\<open>get_system_resources\<close> can return: the constant one of the
  \<^verbatim>\<open>mac\<close> host (which has no \<^verbatim>\<open>available\<close> key), the telemetry one (with
  \<^verbatim>\<open>"available": True\<close>), and \<^verbatim>\<open>{"available": False}\<close>.
\<close>

datatype resources =
    Mac_resources
  | Telemetry nat "gpu list" rat rat
  | Not_available

text \<open>\<^verbatim>\<open>resources.get("available", False)\<close> and \<^verbatim>\<open>resources.get("avg_utilization", 100)\<close>.\<close>

fun get_available :: "resources \<Rightarrow> bool" where
  "get_available (Telemetry n gs u m) = True"
| "get_available Mac_resources = False"
| "get_available Not_available = False"

fun get_avg_utilization :: "resources \<Rightarrow> rat" where
  "get_avg_utilization (Telemetry n gs u m) = u"
| "get_avg_utilization Mac_resources = 100"
| "get_avg_utilization Not_available = 100"

text \<open>\<^verbatim>\<open>util, mem_used, mem_total = map(int, line.split(', '))\<close> and the appended entry.\<close>

definition parse_gpu_line :: "string \<Rightarrow> exn + gpu" where
  "parse_gpu_line line =
     (case map py_int (py_split '', '' line) of
        [Some util, Some mem_used, Some mem_total] \<Rightarrow>
          (case py_truediv (of_int mem_used) (of_int mem_total) of
             Inl e \<Rightarrow> Inl e
           | Inr q \<Rightarrow> Inr \<lparr>utilization = util, memory_used = mem_used,
                           memory_total = mem_total, memory_percent = q * 100\<rparr>)
      | _ \<Rightarrow> Inl ValueError)"

fun collect_gpu_data :: "string list \<Rightarrow> gpu list \<Rightarrow> exn + gpu list" where
  "collect_gpu_data [] gpu_data = Inr gpu_data"
| "collect_gpu_data (line # lines) gpu_data =
     (if py_strip line \<noteq> []
      then (case parse_gpu_line line of
              Inl e \<Rightarrow> Inl e
            | Inr g \<Rightarrow> collect_gpu_data lines (gpu_data @ [g]))
      else collect_gpu_data lines gpu_data)"

definition summarise :: "gpu list \<Rightarrow> exn + resources" where
  "summarise gpu_data =
     (case py_truediv (of_int (sum_list (map utilization gpu_data)))
                      (of_nat (length gpu_data)) of
        Inl e \<Rightarrow> Inl e
      | Inr avg_u \<Rightarrow>
          (case py_truediv (sum_list (map memory_percent gpu_data))
                           (of_nat (length gpu_data)) of
             Inl e \<Rightarrow> Inl e
           | Inr avg_m \<Rightarrow> Inr (Telemetry (length gpu_data) gpu_data avg_u avg_m)))"

definition nvidia_smi_cmd :: "string \<Rightarrow> string" where
  "nvidia_smi_cmd h = ''ssh '' @ h @ '' '' @ [CHR 0x27] @
     ''nvidia-smi --query-gpu=utilization.gpu,memory.used,memory.total --format=csv,noheader,nounits''
     @ [CHR 0x27]"

text \<open>
  The body of the \<^verbatim>\<open>try\<close> block of \<^verbatim>\<open>get_system_resources\<close>: \<open>Inr None\<close> when the
  block ends without returning (a non-zero return code).
\<close>

definition get_system_resources_try ::
  "world \<Rightarrow> state \<Rightarrow> SystemConfig \<Rightarrow> (exn + resources option) \<times> state" where
  "get_system_resources_try w st system =
     (case perform w st (Shell (nvidia_smi_cmd (host system))) of
        (Raised, st1) \<Rightarrow> (Inl SubprocessError, st1)
      | (Exited rc out, st1) \<Rightarrow>
          if rc = 0
          then (case collect_gpu_data (py_split [CHR 0x0A] (py_strip out)) [] of
                  Inl e \<Rightarrow> (Inl e, st1)
                | Inr gpu_data \<Rightarrow>
                    (case summarise gpu_data of
                       Inl e \<Rightarrow> (Inl e, st1)
                     | Inr r \<Rightarrow> (Inr (Some r), st1)))
          else (Inr None, st1))"

definition get_system_resources ::
  "world \<Rightarrow> state \<Rightarrow> SystemConfig \<Rightarrow> resources \<times> state" where
  "get_system_resources w st system =
     (if type system = ''mac'' then (Mac_resources, st)
      else (case get_system_resources_try w st system of
              (Inr (Some r), st') \<Rightarrow> (r, st')
            | (Inr None, st') \<Rightarrow> (Not_available, st')
            | (Inl e, st') \<Rightarrow> (Not_available, st')))"

subsection \<open>Placement selector\<close>

definition routing_rules :: "(string \<times> string list) list" where
  "routing_rules =
    [(''development'', [''dgx-spark'', ''hpc-3'']),
     (''testing'', [''dgx-spark'', ''hpc-1'']),
     (''small_inference'', [''dgx-spark'', ''hpc-3'']),
     (''medium_inference'', [''dgx-spark'', ''hpc-1'']),
     (''large_inference'', [''hpc-1'', ''dgx-spark'']),
     (''batch_processing'', [''hpc-1'', ''hpc-2'']),
     (''multi_user'', [''hpc-2'', ''dgx-spark'']),
     (''interactive'', [''dgx-spark'', ''hpc-3''])]"

text \<open>The \<^verbatim>\<open>if/elif/else\<close> on \<^verbatim>\<open>model_size\<close> that assigns \<^verbatim>\<open>preferred_systems\<close>.\<close>

definition preferred_systems :: "string \<Rightarrow> string list" where
  "preferred_systems model_size =
     (if model_size = ''large'' then [''hpc-1'']
      else if model_size = ''medium'' then [''dgx-spark'', ''hpc-1'']
      else [''dgx-spark'', ''hpc-3''])"

text \<open>
  The value of \<^verbatim>\<open>candidates\<close> when the filtering loop starts:
  \<^verbatim>\<open>routing_rules.get(workload_type, ["dgx-spark"])\<close>, after \<^verbatim>\<open>preferred_systems\<close>
  has been assigned (and not read).
\<close>

definition candidates :: "string \<Rightarrow> string \<Rightarrow> string list" where
  "candidates workload_type model_size =
     (let preferred = preferred_systems model_size
      in case map_of routing_rules workload_type of
           None \<Rightarrow> [''dgx-spark'']
         | Some names \<Rightarrow> names)"

text \<open>\<^verbatim>\<open>system.current_score = v\<close> and \<^verbatim>\<open>getattr(s, 'current_score', 0)\<close>.\<close>

definition set_current_score :: "state \<Rightarrow> SystemConfig \<Rightarrow> rat \<Rightarrow> state" where
  "set_current_score st system v = st\<lparr>current_score := (current_score st)(name system \<mapsto> v)\<rparr>"

definition getattr_current_score :: "state \<Rightarrow> SystemConfig \<Rightarrow> rat" where
  "getattr_current_score st s = (case current_score st (name s) of None \<Rightarrow> 0 | Some v \<Rightarrow> v)"

text \<open>The loop that fills \<^verbatim>\<open>available_systems\<close>.\<close>

fun filter_available ::
  "world \<Rightarrow> string list \<Rightarrow> SystemConfig list \<Rightarrow> state \<Rightarrow> exn + (SystemConfig list \<times> state)" where
  "filter_available w [] available_systems st = Inr (available_systems, st)"
| "filter_available w (system_name # rest) available_systems st =
     (case next_where (\<lambda>s. name s = system_name) systems of
        Inl e \<Rightarrow> Inl e
      | Inr system \<Rightarrow>
          (case check_system_availability w st system of
             (False, st1) \<Rightarrow> filter_available w rest available_systems st1
           | (True, st1) \<Rightarrow>
               (case get_system_resources w st1 system of (resources, st2) \<Rightarrow>
                  if get_available resources
                  then filter_available w rest (available_systems @ [system])
                         (set_current_score st2 system (100 - get_avg_utilization resources))
                  else filter_available w rest available_systems st2)))"

text \<open>
  \<^verbatim>\<open>max(xs, key=f)\<close> on a non-empty list: the running best is replaced only by a
  strictly greater key.
\<close>

fun max_from :: "('a \<Rightarrow> rat) \<Rightarrow> 'a \<Rightarrow> 'a list \<Rightarrow> 'a" where
  "max_from f best [] = best"
| "max_from f best (x # xs) = max_from f (if f best < f x then x else best) xs"

definition py_max :: "('a \<Rightarrow> rat) \<Rightarrow> 'a list \<Rightarrow> exn + 'a" where
  "py_max f xs = (case xs of [] \<Rightarrow> Inl ValueError | x # rest \<Rightarrow> Inr (max_from f x rest))"

definition select_optimal_system ::
  "world \<Rightarrow> state \<Rightarrow> string \<Rightarrow> string \<Rightarrow> exn + (SystemConfig \<times> state)" where
  "select_optimal_system w st workload_type model_size =
     (case filter_available w (candidates workload_type model_size) [] st of
        Inl e \<Rightarrow> Inl e
      | Inr (available_systems, st') \<Rightarrow>
          if available_systems = []
          then (case next_where (\<lambda>s. name s = ''dgx-spark'') systems of
                  Inl e \<Rightarrow> Inl e
                | Inr s \<Rightarrow> Inr (s, st'))
          else (case py_max (getattr_current_score st') available_systems of
                  Inl e \<Rightarrow> Inl e
                | Inr best_system \<Rightarrow> Inr (best_system, st')))"

subsection \<open>Deployment dispatcher\<close>

text \<open>The values held by a deployment configuration dictionary.\<close>

datatype config_value = Str string | Str_list "string list"

type_synonym config = "(string \<times> config_value) list"

text \<open>
  One round of the loop of \<^verbatim>\<open>deploy_mac_control\<close>: the command is run, and whether it
  raises, fails or succeeds only decides what is logged.
\<close>

fun run_mac_commands :: "world \<Rightarrow> state \<Rightarrow> string list list \<Rightarrow> state" where
  "run_mac_commands w st [] = st"
| "run_mac_commands w st (cmd # cmds) =
     (case perform w st (Run cmd) of
        (Raised, st1) \<Rightarrow> run_mac_commands w st1 cmds
      | (Exited rc out, st1) \<Rightarrow> run_mac_commands w st1 cmds)"

definition deploy_mac_control :: "world \<Rightarrow> state \<Rightarrow> config \<Rightarrow> bool \<times> state" where
  "deploy_mac_control w st cfg =
     (True, run_mac_commands w st
        [[''ai-workbench'', ''create-project'', ''qwen-image-edit''],
         [''ai-workbench'', ''connect'', ''dgx-spark''],
         [''ai-workbench'', ''setup-monitoring'']])"

text \<open>
  \<^verbatim>\<open>subprocess.run(argv, check=True)\<close> followed by the remote command, inside one
  \<^verbatim>\<open>try\<close>: the shape shared by \<^verbatim>\<open>deploy_dgx_spark\<close> and \<^verbatim>\<open>deploy_hpc_system\<close>.
\<close>

definition sync_then_ssh_try ::
  "world \<Rightarrow> state \<Rightarrow> string list \<Rightarrow> string list \<Rightarrow> (exn + bool) \<times> state" where
  "sync_then_ssh_try w st rsync_argv ssh_argv =
     (case perform w st (Run rsync_argv) of
        (Raised, st1) \<Rightarrow> (Inl SubprocessError, st1)
      | (Exited rc out, st1) \<Rightarrow>
          if rc \<noteq> 0 then (Inl CalledProcessError, st1)
          else (case perform w st1 (Run ssh_argv) of
                  (Raised, st2) \<Rightarrow> (Inl SubprocessError, st2)
                | (Exited rc2 out2, st2) \<Rightarrow> (Inr (rc2 = 0), st2)))"

definition indent :: string where
  "indent = replicate 12 CHR '' ''"

definition dgx_deploy_cmd :: string where
  "dgx_deploy_cmd = [CHR 0x0A] @ indent @ ''cd /data/qwen-project && '' @
     indent @ ''python code/scripts/deploy.py --env dgx-spark && '' @
     indent @ ''systemctl --user enable qwen-api && '' @
     indent @ ''systemctl --user start qwen-api'' @ [CHR 0x0A] @ indent"

definition hpc_deploy_cmd :: "string \<Rightarrow> string" where
  "hpc_deploy_cmd n = [CHR 0x0A] @ indent @ ''cd /data/qwen-project && '' @
     indent @ ''python code/scripts/deploy.py --env '' @ n @ '' && '' @
     indent @ ''docker-compose -f docker-compose.'' @ n @ ''.yml up -d'' @ [CHR 0x0A] @ indent"

definition deploy_dgx_spark :: "world \<Rightarrow> state \<Rightarrow> config \<Rightarrow> bool \<times> state" where
  "deploy_dgx_spark w st cfg =
     (case sync_then_ssh_try w st
             [''rsync'', ''-avz'', ''./'', ''dgx-spark.lab:/data/qwen-project/'']
             [''ssh'', ''dgx-spark.lab'', dgx_deploy_cmd] of
        (Inl e, st') \<Rightarrow> (False, st')
      | (Inr b, st') \<Rightarrow> (b, st'))"

definition deploy_hpc_system :: "world \<Rightarrow> state \<Rightarrow> SystemConfig \<Rightarrow> config \<Rightarrow> bool \<times> state" where
  "deploy_hpc_system w st system cfg =
     (case sync_then_ssh_try w st
             [''rsync'', ''-avz'', ''./'', host system @ '':/data/qwen-project/'']
             [''ssh'', host system, hpc_deploy_cmd (name system)] of
        (Inl e, st') \<Rightarrow> (False, st')
      | (Inr b, st') \<Rightarrow> (b, st'))"

definition deploy_to_system :: "world \<Rightarrow> state \<Rightarrow> SystemConfig \<Rightarrow> config \<Rightarrow> bool \<times> state" where
  "deploy_to_system w st system cfg =
     (if type system = ''mac'' then deploy_mac_control w st cfg
      else if type system = ''dgx-spark'' then deploy_dgx_spark w st cfg
      else deploy_hpc_system w st system cfg)"

subsection \<open>Orchestration driver\<close>

text \<open>\<^verbatim>\<open>str(i)\<close> of a natural number, as the f-strings of the dashboard format it.\<close>

function str_nat :: "nat \<Rightarrow> string" where
  "str_nat n = (if n < 10 then [char_of (48 + n)]
                else str_nat (n div 10) @ [char_of (48 + n mod 10)])"
  by pat_completeness auto
termination
  by (relation "measure id") auto

record dashboard_system =
  ds_name :: string
  ds_host :: string
  ds_type :: string
  api_endpoint :: string
  ui_endpoint :: string

text \<open>\<^verbatim>\<open>enumerate(xs, i)\<close>.\<close>

fun enumerate_from :: "nat \<Rightarrow> 'a list \<Rightarrow> (nat \<times> 'a) list" where
  "enumerate_from i [] = []"
| "enumerate_from i (x # xs) = (i, x) # enumerate_from (Suc i) xs"

definition dashboard_config :: "dashboard_system list" where
  "dashboard_config =
     map (\<lambda>(i, system).
            \<lparr>ds_name = name system, ds_host = host system, ds_type = type system,
             api_endpoint = ''http://'' @ host system @ '':800'' @ str_nat i,
             ui_endpoint = ''http://'' @ host system @ '':300'' @ str_nat i\<rparr>)
         (enumerate_from 1 (drop 1 systems))"

definition create_unified_dashboard ::
  "world \<Rightarrow> state \<Rightarrow> exn + (dashboard_system list \<times> state)" where
  "create_unified_dashboard w st =
     (case perform w st (Write_file ''dashboard-config.json'') of
        (Raised, st1) \<Rightarrow> Inl OSError
      | (Exited rc out, st1) \<Rightarrow> Inr (dashboard_config, st1))"

text \<open>The values of the \<^verbatim>\<open>deployment_results\<close> dictionary.\<close>

datatype result_value = Deployed bool | Dashboard "dashboard_system list"

type_synonym results = "string \<rightharpoonup> result_value"

text \<open>The key \<^verbatim>\<open>f"{workload}_{optimal_system.name}"\<close>.\<close>

definition result_key :: "string \<Rightarrow> SystemConfig \<Rightarrow> string" where
  "result_key workload optimal_system = workload @ ''_'' @ name optimal_system"

text \<open>
  Step 2 of \<^verbatim>\<open>orchestrate_full_deployment\<close>: the loop over \<^verbatim>\<open>workload_types\<close>, which
  calls \<^verbatim>\<open>select_optimal_system(workload)\<close> with the default model size.
\<close>

fun deploy_workloads ::
  "world \<Rightarrow> state \<Rightarrow> results \<Rightarrow> string list \<Rightarrow> exn + (results \<times> state)" where
  "deploy_workloads w st deployment_results [] = Inr (deployment_results, st)"
| "deploy_workloads w st deployment_results (workload # rest) =
     (case select_optimal_system w st workload ''medium'' of
        Inl e \<Rightarrow> Inl e
      | Inr (optimal_system, st1) \<Rightarrow>
          (case deploy_to_system w st1 optimal_system
                  [(''workload_type'', Str workload),
                   (''system_role'', Str (role optimal_system))] of
             (result, st2) \<Rightarrow>
               deploy_workloads w st2
                 (deployment_results(result_key workload optimal_system \<mapsto> Deployed result))
                 rest))"

definition orchestrate_full_deployment ::
  "world \<Rightarrow> state \<Rightarrow> string list \<Rightarrow> exn + (results \<times> state)" where
  "orchestrate_full_deployment w st workload_types =
     (case next_where (\<lambda>s. type s = ''mac'') systems of
        Inl e \<Rightarrow> Inl e
      | Inr mac_system \<Rightarrow>
          (case deploy_to_system w st mac_system [] of
             (mac_result, st1) \<Rightarrow>
               (case deploy_workloads w st1 [''mac'' \<mapsto> Deployed mac_result] workload_types of
                  Inl e \<Rightarrow> Inl e
                | Inr (deployment_results, st2) \<Rightarrow>
                    (case create_unified_dashboard w st2 of
                       Inl e \<Rightarrow> Inl e
                     | Inr (dashboard, st3) \<Rightarrow>
                         Inr (deployment_results(''dashboard'' \<mapsto> Dashboard dashboard), st3)))))"

subsection \<open>Command line entry point\<close>

text \<open>The parsed arguments, and what \<^verbatim>\<open>main\<close> prints before it returns.\<close>

record args =
  workloads :: "string list"
  target_system :: string
  monitor_only :: bool

datatype printed =
    Printed_dashboard "dashboard_system list"
  | Printed_results results
  | Printed_bool bool

definition target_choices :: "string list" where
  "target_choices = [''mac'', ''dgx-spark'', ''hpc-1'', ''hpc-2'', ''hpc-3'', ''auto'']"

definition main :: "world \<Rightarrow> state \<Rightarrow> args \<Rightarrow> exn + printed" where
  "main w st a =
     (if target_system a \<notin> set target_choices then Inl SystemExit
      else if monitor_only a
      then (case create_unified_dashboard w st of
              Inl e \<Rightarrow> Inl e
            | Inr (dashboard, st1) \<Rightarrow> Inr (Printed_dashboard dashboard))
      else if target_system a = ''auto''
      then (case orchestrate_full_deployment w st (workloads a) of
              Inl e \<Rightarrow> Inl e
            | Inr (deployment_results, st1) \<Rightarrow> Inr (Printed_results deployment_results))
      else (case next_where (\<lambda>s. name s = target_system a) systems of
              Inl e \<Rightarrow> Inl e
            | Inr target \<Rightarrow>
                (case deploy_to_system w st target [(''workloads'', Str_list (workloads a))] of
                   (result, st1) \<Rightarrow> Inr (Printed_bool result))))"

text \<open>
  The exit status of the interpreter: 0 when \<^verbatim>\<open>main\<close> returns, 2 when the argument
  parser rejects the command line, 1 when any other exception escapes.
\<close>

definition exit_status :: "exn + printed \<Rightarrow> int" where
  "exit_status r = (case r of Inr p \<Rightarrow> 0 | Inl SystemExit \<Rightarrow> 2 | Inl e \<Rightarrow> 1)"

subsection \<open>The rounds of a fleet run\<close>

text \<open>
  The rounds of the loop of \<^verbatim>\<open>orchestrate_full_deployment\<close> in order, one per
  workload: the workload, the host \<^verbatim>\<open>select_optimal_system\<close> resolved it to, and
  what \<^verbatim>\<open>deploy_to_system\<close> returned for it. \<open>record_attempt\<close> is the dictionary
  assignment that ends a round.
\<close>

fun attempts :: "world \<Rightarrow> state \<Rightarrow> string list \<Rightarrow> (string \<times> SystemConfig \<times> bool) list" where
  "attempts w st [] = []"
| "attempts w st (workload # rest) =
     (case select_optimal_system w st workload ''medium'' of
        Inl e \<Rightarrow> []
      | Inr (optimal_system, st1) \<Rightarrow>
          (case deploy_to_system w st1 optimal_system
                  [(''workload_type'', Str workload),
                   (''system_role'', Str (role optimal_system))] of
             (result, st2) \<Rightarrow> (workload, optimal_system, result) # attempts w st2 rest))"

definition record_attempt :: "results \<Rightarrow> string \<times> SystemConfig \<times> bool \<Rightarrow> results" where
  "record_attempt m a = (case a of (workload, s, result) \<Rightarrow> m(result_key workload s \<mapsto> Deployed result))"

subsection \<open>The candidate list in the words of the specification\<close>

text \<open>
  The narrowing by model size as the specification states it, for comparison with
  \<open>candidates\<close>: the workload-type candidates in declared order, restricted to those
  also in the model-size preference list; the unrestricted list when nothing is left.
\<close>

definition spec_candidates :: "string \<Rightarrow> string \<Rightarrow> string list" where
  "spec_candidates workload_type model_size =
     (let by_type = (case map_of routing_rules workload_type of
                       None \<Rightarrow> [''dgx-spark''] | Some names \<Rightarrow> names);
          both = filter (\<lambda>n. n \<in> set (preferred_systems model_size)) by_type
      in if both = [] then by_type else both)"

subsection \<open>Concrete runs\<close>

text \<open>A freshly constructed orchestrator: no outside call made, no score attached.\<close>

definition initial_state :: state where
  "initial_state = \<lparr>clock = 0, current_score = Map.empty\<rparr>"

text \<open>Every subprocess raises (no network, no tools); only the dashboard file can be written.\<close>

definition world_all_down :: world where
  "world_all_down t c = (case c of Write_file p \<Rightarrow> Exited 0 [] | _ \<Rightarrow> Raised)"


text \<open>
  Every call succeeds, and every telemetry query reports one accelerator at 50 percent
  utilisation.
\<close>

definition world_all_ok :: world where
  "world_all_ok t c = Exited 0 ''50, 100, 1000''"

text \<open>
  Every call succeeds; the telemetry of \<^verbatim>\<open>dgx-spark.lab\<close> reports 90 percent
  utilisation, that of every other host 10 percent.
\<close>

definition world_gateway_busy :: world where
  "world_gateway_busy t c =
     (case c of
        Shell cmd \<Rightarrow> if cmd = nvidia_smi_cmd ''dgx-spark.lab''
                     then Exited 0 ''90, 100, 1000'' else Exited 0 ''10, 100, 1000''
      | _ \<Rightarrow> Exited 0 [])"

text \<open>
  As \<open>world_all_ok\<close> for the first six outside calls; from then on every ping exits
  with status 1.
\<close>

definition world_network_lost :: world where
  "world_network_lost t c =
     (if t < 6 then Exited 0 ''50, 100, 1000''
      else (case c of
              Run argv \<Rightarrow> if take 1 argv = [''ping''] then Exited 1 [] else Exited 0 []
            | _ \<Rightarrow> Exited 0 ''50, 100, 1000''))"

text \<open>The parsed arguments of a run started without options: the parser's defaults.\<close>

definition default_args :: args where
  "default_args = \<lparr>workloads = [''development'', ''testing'', ''production''],
                    target_system = ''auto'', monitor_only = False\<rparr>"

section \<open>Properties\<close>

subsection \<open>Availability prober\<close>

text \<open>
  C8. The availability check is total and advisory. For the \<^verbatim>\<open>mac\<close> host it answers
  \<open>True\<close> and leaves the state untouched, so no outside call is made. For every other
  host, an exception of the \<^verbatim>\<open>try\<close> block is turned into \<open>False\<close>, and the
  answer is \<open>True\<close> exactly when the ping and then the ssh probe both complete with
  return code 0: a raised call or a non-zero code at either stage gives \<open>False\<close>.
\<close>

theorem check_system_availability_advisory:
  "(type s = ''mac'' \<longrightarrow> check_system_availability w st s = (True, st)) \<and>
   (type s \<noteq> ''mac'' \<longrightarrow>
      (\<forall>e st'. check_system_availability_try w st s = (Inl e, st') \<longrightarrow>
                check_system_availability w st s = (False, st')) \<and>
      (fst (check_system_availability w st s) \<longleftrightarrow>
         (\<exists>out1 out2.
            w (clock st) (Run [''ping'', ''-c'', ''1'', host s]) = Exited 0 out1 \<and>
            w (Suc (clock st))
              (Run [''ssh'', ''-o'', ''ConnectTimeout=5'', host s,
                    ''echo '' @ [CHR 0x22] @ ''ok'' @ [CHR 0x22]]) = Exited 0 out2)))"
  by (auto simp: check_system_availability_def check_system_availability_try_def perform_def
           split: outcome.splits prod.splits sum.splits if_splits)

theorem check_system_availability_advisory_witness:
  "check_system_availability world_all_down initial_state (systems ! 0) = (True, initial_state) \<and>
   check_system_availability_try world_all_down initial_state (systems ! 1)
     = (Inl SubprocessError, initial_state\<lparr>clock := 1\<rparr>) \<and>
   check_system_availability world_all_down initial_state (systems ! 1)
     = (False, initial_state\<lparr>clock := 1\<rparr>)"
  using check_system_availability_advisory [of "systems ! 0" world_all_down initial_state]
    check_system_availability_advisory [of "systems ! 1" world_all_down initial_state]
  by (simp add: systems_def load_system_configs_def check_system_availability_try_def
      perform_def world_all_down_def initial_state_def)

subsection \<open>Resource telemetry collector\<close>





subsection \<open>Probes and telemetry touch only the clock\<close>

lemma check_try_frame:
  "check_system_availability_try w (st\<lparr>current_score := sc\<rparr>) s =
     (fst (check_system_availability_try w st s),
      (snd (check_system_availability_try w st s))\<lparr>current_score := sc\<rparr>)"
  by (simp add: check_system_availability_try_def perform_def split: outcome.split)

lemma check_frame:
  "check_system_availability w (st\<lparr>current_score := sc\<rparr>) s =
     (fst (check_system_availability w st s),
      (snd (check_system_availability w st s))\<lparr>current_score := sc\<rparr>)"
  by (simp add: check_system_availability_def check_try_frame split: prod.split sum.split)

lemma check_score:
  "current_score (snd (check_system_availability w st s)) = current_score st"
  by (simp add: check_system_availability_def check_system_availability_try_def perform_def
      split: prod.split sum.split outcome.split)

lemma resources_try_frame:
  "get_system_resources_try w (st\<lparr>current_score := sc\<rparr>) s =
     (fst (get_system_resources_try w st s),
      (snd (get_system_resources_try w st s))\<lparr>current_score := sc\<rparr>)"
  by (simp add: get_system_resources_try_def perform_def split: outcome.split sum.split)

lemma resources_frame:
  "get_system_resources w (st\<lparr>current_score := sc\<rparr>) s =
     (fst (get_system_resources w st s),
      (snd (get_system_resources w st s))\<lparr>current_score := sc\<rparr>)"
  by (simp add: get_system_resources_def resources_try_frame
      split: prod.split sum.split option.split)

lemma resources_score:
  "current_score (snd (get_system_resources w st s)) = current_score st"
  by (simp add: get_system_resources_def get_system_resources_try_def perform_def
      split: prod.split sum.split outcome.split option.split)




lemma set_current_score_frame:
  "set_current_score (st\<lparr>current_score := sc\<rparr>) s v =
     (set_current_score st s v)\<lparr>current_score := sc(name s \<mapsto> v)\<rparr>"
  by (simp add: set_current_score_def)

subsection \<open>Host registry and routing table\<close>

lemma next_where_Inr:
  assumes "next_where p xs = Inr x"
  shows "p x \<and> x \<in> set xs"
  using assms by (induction xs) (auto simp: next_where_def split: if_splits)

lemma systems_names_distinct: "distinct (map name systems)"
  by (simp add: systems_def load_system_configs_def)

lemma systems_name_inj:
  assumes "s \<in> set systems" "s' \<in> set systems" "name s = name s'"
  shows "s = s'"
  using assms systems_names_distinct by (meson distinct_map inj_on_def)

lemma candidates_known: "set (candidates wt ms) \<subseteq> {''dgx-spark'', ''hpc-1'', ''hpc-2'', ''hpc-3''}"
  by (auto simp: candidates_def routing_rules_def split: option.splits if_splits)

lemma known_lookup:
  assumes "n \<in> {''dgx-spark'', ''hpc-1'', ''hpc-2'', ''hpc-3''}"
  shows "\<exists>s. next_where (\<lambda>s. name s = n) systems = Inr s \<and> name s = n \<and> type s \<noteq> ''mac''
             \<and> s \<in> set systems"
  using assms by (auto simp: next_where_def systems_def load_system_configs_def)

lemma dgx_lookup: "next_where (\<lambda>s. name s = ''dgx-spark'') systems = Inr (systems ! 1)"
  by (simp add: next_where_def systems_def load_system_configs_def)

lemma dgx_entry: "systems ! 1 \<in> set systems \<and> name (systems ! 1) = ''dgx-spark''"
  by (simp add: systems_def load_system_configs_def)

lemma mac_lookup: "next_where (\<lambda>s. type s = ''mac'') systems = Inr (systems ! 0)"
  by (simp add: next_where_def systems_def load_system_configs_def)

lemma mac_type: "type (systems ! 0) = ''mac''"
  by (simp add: systems_def load_system_configs_def)

subsection \<open>The filtering loop\<close>

lemma filter_available_total:
  assumes "set ns \<subseteq> {''dgx-spark'', ''hpc-1'', ''hpc-2'', ''hpc-3''}"
  shows "\<exists>av st'. filter_available w ns acc st = Inr (av, st')"
  using assms
proof (induction ns arbitrary: acc st)
  case Nil
  then show ?case by simp
next
  case (Cons n ns)
  then obtain s where s: "next_where (\<lambda>s. name s = n) systems = Inr s"
    using known_lookup[of n] by auto
  from Cons have ns: "set ns \<subseteq> {''dgx-spark'', ''hpc-1'', ''hpc-2'', ''hpc-3''}" by simp
  obtain b st1 where c: "check_system_availability w st s = (b, st1)"
    by (cases "check_system_availability w st s")
  obtain r st2 where r: "get_system_resources w st1 s = (r, st2)"
    by (cases "get_system_resources w st1 s")
  show ?case
  proof (cases b)
    case False
    then show ?thesis using Cons.IH[OF ns, of acc st1] s c by simp
  next
    case True
    then show ?thesis
      using Cons.IH[OF ns, of "acc @ [s]" "set_current_score st2 s (100 - get_avg_utilization r)"]
        Cons.IH[OF ns, of acc st2] s c r
      by simp
  qed
qed

lemma filter_available_step:
  assumes "next_where (\<lambda>s. name s = n) systems = Inr s"
  shows "filter_available w (n # rest) acc st =
     (if fst (check_system_availability w st s)
      then (if get_available (fst (get_system_resources w (snd (check_system_availability w st s)) s))
            then filter_available w rest (acc @ [s])
                   (set_current_score
                      (snd (get_system_resources w (snd (check_system_availability w st s)) s)) s
                      (100 - get_avg_utilization
                               (fst (get_system_resources w (snd (check_system_availability w st s)) s))))
            else filter_available w rest acc
                   (snd (get_system_resources w (snd (check_system_availability w st s)) s)))
      else filter_available w rest acc (snd (check_system_availability w st s)))"
  using assms by (simp split: prod.split bool.split)

lemma filter_available_unknown:
  assumes "next_where (\<lambda>s. name s = n) systems = Inl e"
  shows "filter_available w (n # rest) acc st = Inl e"
  using assms by simp

declare filter_available.simps(2) [simp del]

lemma filter_available_members:
  assumes "filter_available w ns acc st = Inr (av, st')"
  shows "\<exists>ss. av = acc @ ss \<and> (\<forall>s\<in>set ss. s \<in> set systems \<and> name s \<in> set ns)"
  using assms
proof (induction ns arbitrary: acc st)
  case Nil
  then show ?case by simp
next
  case (Cons n ns)
  show ?case
  proof (cases "next_where (\<lambda>s. name s = n) systems")
    case (Inl e)
    with Cons.prems show ?thesis by (simp only: filter_available_unknown[OF Inl]) simp
  next
    case (Inr s)
    have s: "s \<in> set systems" "name s = n" using next_where_Inr[OF Inr] by auto
    from Cons.prems consider
        (skip) st1 where "filter_available w ns acc st1 = Inr (av, st')"
      | (keep) st1 where "filter_available w ns (acc @ [s]) st1 = Inr (av, st')"
      unfolding filter_available_step[OF Inr] by (auto split: if_splits)
    then show ?thesis
    proof cases
      case skip
      from Cons.IH[OF skip] show ?thesis by auto
    next
      case keep
      from Cons.IH[OF keep] s show ?thesis by auto
    qed
  qed
qed


lemma filter_available_none:
  assumes "filter_available w ns acc st = Inr (acc, st')"
  shows "current_score st' = current_score st"
  using assms
proof (induction ns arbitrary: st)
  case Nil
  then show ?case by simp
next
  case (Cons n ns)
  show ?case
  proof (cases "next_where (\<lambda>s. name s = n) systems")
    case (Inl e)
    with Cons.prems show ?thesis by (simp only: filter_available_unknown[OF Inl]) simp
  next
    case (Inr s)
    let ?c = "check_system_availability w st s"
    let ?r = "get_system_resources w (snd ?c) s"
    have sc1: "current_score (snd ?c) = current_score st" by (rule check_score)
    have sc2: "current_score (snd ?r) = current_score st" by (simp add: resources_score sc1)
    have no: "filter_available w ns (acc @ [s]) st3 \<noteq> Inr (acc, st')" for st3
      using filter_available_members[of w ns "acc @ [s]" st3 acc st'] by auto
    from Cons.prems no obtain st1 where
      f: "filter_available w ns acc st1 = Inr (acc, st')" and "current_score st1 = current_score st"
      unfolding filter_available_step[OF Inr] using sc1 sc2 by (auto split: if_splits)
    with Cons.IH[OF f] show ?thesis by simp
  qed
qed

lemma filter_available_indep:
  assumes "filter_available w ns acc st = Inr (av, st')"
    and "\<forall>s\<in>set acc. sc (name s) = current_score st (name s)"
  shows "\<exists>sc'. filter_available w ns acc (st\<lparr>current_score := sc\<rparr>)
                  = Inr (av, st'\<lparr>current_score := sc'\<rparr>) \<and>
               (\<forall>s\<in>set av. sc' (name s) = current_score st' (name s))"
  using assms
proof (induction ns arbitrary: acc st sc)
  case Nil
  then show ?case by auto
next
  case (Cons n ns)
  show ?case
  proof (cases "next_where (\<lambda>s. name s = n) systems")
    case (Inl e)
    with Cons.prems show ?thesis by (simp only: filter_available_unknown[OF Inl]) simp
  next
    case (Inr s)
    let ?c = "check_system_availability w st s"
    let ?r = "get_system_resources w (snd ?c) s"
    let ?v = "100 - get_avg_utilization (fst ?r)"
    have sc1: "current_score (snd ?c) = current_score st" by (rule check_score)
    have sc2: "current_score (snd ?r) = current_score st" by (simp add: resources_score sc1)
    show ?thesis
    proof (cases "fst ?c")
      case False
      with Cons.prems(1) have f: "filter_available w ns acc (snd ?c) = Inr (av, st')"
        by (simp add: filter_available_step[OF Inr])
      from Cons.prems(2) sc1 have a: "\<forall>s\<in>set acc. sc (name s) = current_score (snd ?c) (name s)"
        by simp
      have "filter_available w (n # ns) acc (st\<lparr>current_score := sc\<rparr>)
              = filter_available w ns acc ((snd ?c)\<lparr>current_score := sc\<rparr>)"
        using False by (simp add: filter_available_step[OF Inr] check_frame)
      then show ?thesis using Cons.IH[OF f a] by (simp only:)
    next
      case True
      note c = True
      show ?thesis
      proof (cases "get_available (fst ?r)")
        case False
        with c Cons.prems(1) have f: "filter_available w ns acc (snd ?r) = Inr (av, st')"
          by (simp add: filter_available_step[OF Inr])
        from Cons.prems(2) sc2 have a: "\<forall>s\<in>set acc. sc (name s) = current_score (snd ?r) (name s)"
          by simp
        have "filter_available w (n # ns) acc (st\<lparr>current_score := sc\<rparr>)
                = filter_available w ns acc ((snd ?r)\<lparr>current_score := sc\<rparr>)"
          using False c by (simp add: filter_available_step[OF Inr] check_frame resources_frame)
        then show ?thesis using Cons.IH[OF f a] by (simp only:)
      next
        case True
        with c Cons.prems(1) have
          f: "filter_available w ns (acc @ [s]) (set_current_score (snd ?r) s ?v) = Inr (av, st')"
          by (simp add: filter_available_step[OF Inr])
        from Cons.prems(2) sc2 have
          a: "\<forall>x\<in>set (acc @ [s]). (sc(name s \<mapsto> ?v)) (name x)
                = current_score (set_current_score (snd ?r) s ?v) (name x)"
          by (simp add: set_current_score_def)
        have "filter_available w (n # ns) acc (st\<lparr>current_score := sc\<rparr>)
                = filter_available w ns (acc @ [s])
                    ((set_current_score (snd ?r) s ?v)\<lparr>current_score := sc(name s \<mapsto> ?v)\<rparr>)"
          using True c by (simp add: filter_available_step[OF Inr] check_frame resources_frame
              set_current_score_frame)
        then show ?thesis using Cons.IH[OF f a] by (simp only:)
      qed
    qed
  qed
qed


subsection \<open>The maximum by key\<close>

lemma max_from_cong:
  assumes "\<forall>x\<in>set (b # xs). f x = g x"
  shows "max_from f b xs = max_from g b xs"
  using assms by (induction xs arbitrary: b) auto

lemma max_from_mem: "max_from f b xs \<in> set (b # xs)"
  by (induction xs arbitrary: b) auto



subsection \<open>Placement selector\<close>

lemma select_total:
  "\<exists>s st'. select_optimal_system w st wt ms = Inr (s, st')"
proof -
  obtain av st' where f: "filter_available w (candidates wt ms) [] st = Inr (av, st')"
    using filter_available_total[OF candidates_known] by blast
  obtain d where d: "next_where (\<lambda>s. name s = ''dgx-spark'') systems = Inr d"
    using known_lookup[of "''dgx-spark''"] by auto
  show ?thesis
    using f d by (cases av) (simp_all add: select_optimal_system_def py_max_def)
qed

lemma select_in_registry:
  assumes "select_optimal_system w st wt ms = Inr (s, st')"
  shows "s \<in> set systems"
proof -
  obtain av st1 where f: "filter_available w (candidates wt ms) [] st = Inr (av, st1)"
    using filter_available_total[OF candidates_known] by blast
  from filter_available_members[OF f] have av: "\<forall>x\<in>set av. x \<in> set systems" by auto
  show ?thesis
  proof (cases av)
    case Nil
    with assms f show ?thesis
      by (auto simp: select_optimal_system_def split: sum.splits dest: next_where_Inr)
  next
    case (Cons b xs)
    with assms f have "s = max_from (getattr_current_score st1) b xs"
      by (auto simp: select_optimal_system_def py_max_def)
    with max_from_mem[of "getattr_current_score st1" b xs] av Cons show ?thesis by auto
  qed
qed

lemma select_name:
  assumes "select_optimal_system w st wt ms = Inr (s, st')"
  shows "name s \<in> set (candidates wt ms) \<or> s = systems ! 1"
proof -
  obtain av st1 where f: "filter_available w (candidates wt ms) [] st = Inr (av, st1)"
    using filter_available_total[OF candidates_known] by blast
  from filter_available_members[OF f] have av: "\<forall>x\<in>set av. name x \<in> set (candidates wt ms)"
    by auto
  show ?thesis
  proof (cases av)
    case Nil
    with assms f show ?thesis by (auto simp: select_optimal_system_def dgx_lookup)
  next
    case (Cons b xs)
    with assms f have "s = max_from (getattr_current_score st1) b xs"
      by (auto simp: select_optimal_system_def py_max_def)
    with max_from_mem[of "getattr_current_score st1" b xs] av Cons show ?thesis by auto
  qed
qed

lemmas parse_defs = py_split_def py_strip_def py_isspace_def py_int_def int_unsigned_def
  is_digit_def digit_value_def py_truediv_def parse_gpu_line_def summarise_def

lemmas probe_defs = check_system_availability_def check_system_availability_try_def
  get_system_resources_def get_system_resources_try_def perform_def

lemmas select_defs = select_optimal_system_def candidates_def routing_rules_def
  preferred_systems_def next_where_def systems_def load_system_configs_def
  set_current_score_def getattr_current_score_def py_max_def filter_available.simps

text \<open>
  C10. A workload type that is not a key of the routing table gets the candidate list
  \<^verbatim>\<open>["dgx-spark"]\<close>, whatever the model size; no error is raised and no other
  registry host is considered, so the selection returns the \<^verbatim>\<open>dgx-spark\<close> entry.
\<close>

theorem unknown_workload_uses_gateway:
  assumes "map_of routing_rules wt = None"
  shows "candidates wt ms = [''dgx-spark''] \<and>
         (\<exists>st'. select_optimal_system w st wt ms = Inr (systems ! 1, st')) \<and>
         name (systems ! 1) = ''dgx-spark''"
proof -
  from assms have c: "candidates wt ms = [''dgx-spark'']" by (simp add: candidates_def)
  obtain s st' where s: "select_optimal_system w st wt ms = Inr (s, st')"
    using select_total by blast
  from select_name[OF s] c have "name s = ''dgx-spark'' \<or> s = systems ! 1" by simp
  then have "s = systems ! 1"
  proof
    assume "name s = ''dgx-spark''"
    with dgx_entry have "name s = name (systems ! 1)" by simp
    with select_in_registry[OF s] dgx_entry show ?thesis by (intro systems_name_inj) simp_all
  qed
  with s c dgx_entry show ?thesis by simp
qed

theorem unknown_workload_uses_gateway_witness:
  "candidates ''production'' ''medium'' = [''dgx-spark''] \<and>
   (\<exists>st'. select_optimal_system world_all_down initial_state ''production'' ''medium''
            = Inr (systems ! 1, st')) \<and>
   name (systems ! 1) = ''dgx-spark''"
proof -
  have "map_of routing_rules ''production'' = None" by (simp add: routing_rules_def)
  from unknown_workload_uses_gateway[OF this] show ?thesis .
qed

text \<open>
  C7. The selection is deterministic: in the same world and at the same moment (so with
  the same answers to every probe and telemetry query), two calls with the same
  workload type and model size return the same host, whatever scores earlier calls
  left attached to the host objects; neither call raises.
\<close>

theorem select_optimal_system_deterministic:
  "\<exists>s st1 st2.
     select_optimal_system w \<lparr>clock = t, current_score = sc1\<rparr> wt ms = Inr (s, st1) \<and>
     select_optimal_system w \<lparr>clock = t, current_score = sc2\<rparr> wt ms = Inr (s, st2)"
proof -
  let ?st = "\<lparr>clock = t, current_score = sc1\<rparr>"
  obtain av st' where f: "filter_available w (candidates wt ms) [] ?st = Inr (av, st')"
    using filter_available_total[OF candidates_known] by blast
  from filter_available_indep[OF f, of sc2] obtain sc' where
    f2: "filter_available w (candidates wt ms) [] (?st\<lparr>current_score := sc2\<rparr>)
           = Inr (av, st'\<lparr>current_score := sc'\<rparr>)"
    and ag: "\<forall>s\<in>set av. sc' (name s) = current_score st' (name s)"
    by auto
  have e: "?st\<lparr>current_score := sc2\<rparr> = \<lparr>clock = t, current_score = sc2\<rparr>" by simp
  obtain d where d: "next_where (\<lambda>s. name s = ''dgx-spark'') systems = Inr d"
    using known_lookup[of "''dgx-spark''"] by auto
  show ?thesis
  proof (cases av)
    case Nil
    with f f2 d e show ?thesis by (simp add: select_optimal_system_def)
  next
    case (Cons b xs)
    have "\<forall>x\<in>set (b # xs). getattr_current_score (st'\<lparr>current_score := sc'\<rparr>) x
            = getattr_current_score st' x"
      using ag Cons by (simp add: getattr_current_score_def)
    from max_from_cong[OF this] Cons f f2 e show ?thesis
      by (simp add: select_optimal_system_def py_max_def)
  qed
qed

theorem select_optimal_system_deterministic_witness:
  "\<exists>s st1 st2.
     select_optimal_system world_all_ok \<lparr>clock = 0, current_score = Map.empty\<rparr>
       ''large_inference'' ''medium'' = Inr (s, st1) \<and>
     select_optimal_system world_all_ok \<lparr>clock = 0, current_score = [''dgx-spark'' \<mapsto> 100]\<rparr>
       ''large_inference'' ''medium'' = Inr (s, st2)"
  using select_optimal_system_deterministic
          [of world_all_ok 0 Map.empty "''large_inference''" "''medium''"
              "[''dgx-spark'' \<mapsto> 100]"] .





text \<open>
  C3, as the code has it. When no candidate survives the filtering, the selection
  returns the \<^verbatim>\<open>dgx-spark\<close> registry entry, whatever that host's own probes would
  answer, and raises nothing. The value returned is the plain registry entry and the
  attached scores are left as they were: nothing marks the decision.
\<close>

theorem select_fallback_gateway:
  assumes "filter_available w (candidates wt ms) [] st = Inr ([], st')"
  shows "select_optimal_system w st wt ms = Inr (systems ! 1, st') \<and>
         name (systems ! 1) = ''dgx-spark'' \<and>
         current_score st' = current_score st"
  using assms filter_available_none[OF assms] dgx_entry
  by (simp add: select_optimal_system_def dgx_lookup)

lemma lost_second:
  "filter_available world_network_lost (candidates ''interactive'' ''medium'') []
       \<lparr>clock = 6, current_score = [''dgx-spark'' \<mapsto> 50, ''hpc-3'' \<mapsto> 50]\<rparr>
     = Inr ([], \<lparr>clock = 8, current_score = [''dgx-spark'' \<mapsto> 50, ''hpc-3'' \<mapsto> 50]\<rparr>)"
  by (simp add: select_defs probe_defs parse_defs world_network_lost_def)

theorem select_fallback_gateway_witness:
  "select_optimal_system world_network_lost
       \<lparr>clock = 6, current_score = [''dgx-spark'' \<mapsto> 50, ''hpc-3'' \<mapsto> 50]\<rparr>
       ''interactive'' ''medium''
     = Inr (systems ! 1,
            \<lparr>clock = 8, current_score = [''dgx-spark'' \<mapsto> 50, ''hpc-3'' \<mapsto> 50]\<rparr>) \<and>
   name (systems ! 1) = ''dgx-spark'' \<and>
   current_score \<lparr>clock = 8, current_score = [''dgx-spark'' \<mapsto> 50, ''hpc-3'' \<mapsto> 50]\<rparr>
     = current_score \<lparr>clock = 6, current_score = [''dgx-spark'' \<mapsto> (50::rat), ''hpc-3'' \<mapsto> 50]\<rparr>"
  using select_fallback_gateway[OF lost_second] .

text \<open>
  C3 as stated fails on the marking: a first call in which both candidates survive and
  a second call in which none does return the same host and leave the same scores
  attached, so nothing in the decision tells the fallback from a scored placement.
\<close>

theorem select_fallback_unmarked_counterexample:
  "filter_available world_network_lost (candidates ''interactive'' ''medium'') [] initial_state
     = Inr ([systems ! 1, systems ! 4],
            \<lparr>clock = 6, current_score = [''dgx-spark'' \<mapsto> 50, ''hpc-3'' \<mapsto> 50]\<rparr>) \<and>
   select_optimal_system world_network_lost initial_state ''interactive'' ''medium''
     = Inr (systems ! 1,
            \<lparr>clock = 6, current_score = [''dgx-spark'' \<mapsto> 50, ''hpc-3'' \<mapsto> 50]\<rparr>) \<and>
   filter_available world_network_lost (candidates ''interactive'' ''medium'') []
       \<lparr>clock = 6, current_score = [''dgx-spark'' \<mapsto> 50, ''hpc-3'' \<mapsto> 50]\<rparr>
     = Inr ([], \<lparr>clock = 8, current_score = [''dgx-spark'' \<mapsto> 50, ''hpc-3'' \<mapsto> 50]\<rparr>) \<and>
   select_optimal_system world_network_lost
       \<lparr>clock = 6, current_score = [''dgx-spark'' \<mapsto> 50, ''hpc-3'' \<mapsto> 50]\<rparr>
       ''interactive'' ''medium''
     = Inr (systems ! 1,
            \<lparr>clock = 8, current_score = [''dgx-spark'' \<mapsto> 50, ''hpc-3'' \<mapsto> 50]\<rparr>)"
  by (simp add: select_defs probe_defs parse_defs world_network_lost_def initial_state_def)

text \<open>The model size never reaches the candidate list.\<close>

lemma candidates_model_size_unused: "candidates wt ms = candidates wt ms'"
  by (simp add: candidates_def)

text \<open>
  C1. The code does not intersect: for the workload type \<^verbatim>\<open>development\<close> and the
  model size \<^verbatim>\<open>medium\<close> the filtering loop receives both workload-type candidates,
  while the intersection with the preference list of \<^verbatim>\<open>medium\<close> is
  \<^verbatim>\<open>["dgx-spark"]\<close> only; with the gateway busier than \<^verbatim>\<open>hpc-3\<close> the selection
  returns \<^verbatim>\<open>hpc-3\<close>, a host outside the preference list.
\<close>

theorem candidates_ignore_model_size:
  "candidates ''development'' ''medium'' = [''dgx-spark'', ''hpc-3''] \<and>
   spec_candidates ''development'' ''medium'' = [''dgx-spark''] \<and>
   select_optimal_system world_gateway_busy initial_state ''development'' ''medium''
     = Inr (systems ! 4, \<lparr>clock = 6, current_score = [''dgx-spark'' \<mapsto> 10, ''hpc-3'' \<mapsto> 90]\<rparr>) \<and>
   name (systems ! 4) = ''hpc-3''"
  by (simp add: spec_candidates_def select_defs probe_defs parse_defs world_gateway_busy_def
      initial_state_def nvidia_smi_cmd_def)

subsection \<open>Deployment dispatcher and orchestration driver\<close>

lemma deploy_mac_control_True: "fst (deploy_mac_control w st cfg) = True"
  by (simp add: deploy_mac_control_def)



lemma deploy_workloads_attempts:
  "\<exists>st'. deploy_workloads w st m ws = Inr (foldl record_attempt m (attempts w st ws), st')"
proof (induction ws arbitrary: st m)
  case Nil
  then show ?case by simp
next
  case (Cons wl ws)
  obtain s st1 where s: "select_optimal_system w st wl ''medium'' = Inr (s, st1)"
    using select_total by blast
  obtain r st2 where d: "deploy_to_system w st1 s
      [(''workload_type'', Str wl), (''system_role'', Str (role s))] = (r, st2)"
    by (cases "deploy_to_system w st1 s
      [(''workload_type'', Str wl), (''system_role'', Str (role s))]")
  have e1: "deploy_workloads w st m (wl # ws)
              = deploy_workloads w st2 (m(result_key wl s \<mapsto> Deployed r)) ws"
    using s d by simp
  have e2: "attempts w st (wl # ws) = (wl, s, r) # attempts w st2 ws"
    using s d by simp
  have e3: "foldl record_attempt m ((wl, s, r) # attempts w st2 ws)
              = foldl record_attempt (m(result_key wl s \<mapsto> Deployed r)) (attempts w st2 ws)"
    by (simp add: record_attempt_def)
  show ?case unfolding e1 e2 e3 by (rule Cons)
qed

lemma record_attempt_triple:
  "record_attempt m (wl, s, r) = m(result_key wl s \<mapsto> Deployed r)"
  by (simp add: record_attempt_def)





lemma result_key_underscore: "CHR ''_'' \<in> set (result_key wl s)"
  by (simp add: result_key_def)

lemma foldl_record_other:
  assumes "CHR ''_'' \<notin> set k"
  shows "foldl record_attempt m as k = m k"
  using assms
proof (induction as arbitrary: m)
  case Nil
  then show ?case by simp
next
  case (Cons a as)
  obtain wl s r where a: "a = (wl, s, r)" by (cases a)
  from Cons.prems result_key_underscore[of wl s] have "k \<noteq> result_key wl s" by auto
  with Cons a show ?case by (simp add: record_attempt_triple)
qed







lemma orchestrate_Inr_shape:
  assumes "orchestrate_full_deployment w st ws = Inr (results, st')"
  shows "\<exists>m. results = m(''dashboard'' \<mapsto> Dashboard dashboard_config) \<and>
             m = foldl record_attempt
                   [''mac'' \<mapsto> Deployed (fst (deploy_to_system w st (systems ! 0) []))]
                   (attempts w (snd (deploy_to_system w st (systems ! 0) [])) ws)"
proof -
  obtain mr st1 where mac: "deploy_to_system w st (systems ! 0) [] = (mr, st1)"
    by (cases "deploy_to_system w st (systems ! 0) []")
  obtain st2 where dw: "deploy_workloads w st1 [''mac'' \<mapsto> Deployed mr] ws
      = Inr (foldl record_attempt [''mac'' \<mapsto> Deployed mr] (attempts w st1 ws), st2)"
    using deploy_workloads_attempts by blast
  from assms mac dw show ?thesis
    by (auto simp: orchestrate_full_deployment_def mac_lookup create_unified_dashboard_def
        perform_def split: sum.splits outcome.splits)
qed


lemmas deploy_defs = deploy_to_system_def deploy_mac_control_def deploy_dgx_spark_def
  deploy_hpc_system_def sync_then_ssh_try_def run_mac_commands.simps

lemmas driver_defs = orchestrate_full_deployment_def create_unified_dashboard_def
  result_key_def deploy_workloads.simps main_def exit_status_def target_choices_def



lemma all_down_default_run:
  "orchestrate_full_deployment world_all_down initial_state (workloads default_args)
     = Inr ([''mac'' \<mapsto> Deployed True, ''development_dgx-spark'' \<mapsto> Deployed False,
             ''testing_dgx-spark'' \<mapsto> Deployed False,
             ''production_dgx-spark'' \<mapsto> Deployed False,
             ''dashboard'' \<mapsto> Dashboard dashboard_config],
            \<lparr>clock = 12, current_score = Map.empty\<rparr>)"
  by (simp add: default_args_def driver_defs deploy_defs select_defs probe_defs
      world_all_down_def initial_state_def)

text \<open>
  C9. Deployment to the \<^verbatim>\<open>mac\<close> host always reports success:
  \<^verbatim>\<open>deploy_mac_control\<close> returns \<open>True\<close> whatever its three setup commands do
  (raise, fail or succeed), \<^verbatim>\<open>deploy_to_system\<close> therefore returns \<open>True\<close> for every
  host of type \<^verbatim>\<open>mac\<close>, and the \<^verbatim>\<open>"mac"\<close> entry of every fleet result is
  \<open>True\<close>.
\<close>

theorem deploy_mac_control_always_true:
  "fst (deploy_mac_control w st cfg) = True \<and>
   (type s = ''mac'' \<longrightarrow> fst (deploy_to_system w st s cfg) = True) \<and>
   (\<forall>results st'. orchestrate_full_deployment w st ws = Inr (results, st')
        \<longrightarrow> results ''mac'' = Some (Deployed True))"
proof -
  have 1: "fst (deploy_mac_control w st cfg) = True" by (rule deploy_mac_control_True)
  have 2: "type s = ''mac'' \<longrightarrow> fst (deploy_to_system w st s cfg) = True"
    by (simp add: deploy_to_system_def deploy_mac_control_True)
  have 3: "results ''mac'' = Some (Deployed True)"
    if o: "orchestrate_full_deployment w st ws = Inr (results, st')" for results st'
  proof -
    have t: "fst (deploy_to_system w st (systems ! 0) []) = True"
      by (simp add: deploy_to_system_def mac_type deploy_mac_control_True)
    from orchestrate_Inr_shape[OF o] t show ?thesis
      by (auto simp: foldl_record_other)
  qed
  from 1 2 3 show ?thesis by blast
qed

theorem deploy_mac_control_always_true_witness:
  "fst (deploy_mac_control world_all_down initial_state []) = True \<and>
   fst (deploy_to_system world_all_down initial_state (systems ! 0) []) = True \<and>
   [''mac'' \<mapsto> Deployed True, ''development_dgx-spark'' \<mapsto> Deployed False,
    ''testing_dgx-spark'' \<mapsto> Deployed False,
    ''production_dgx-spark'' \<mapsto> Deployed False,
    ''dashboard'' \<mapsto> Dashboard dashboard_config] ''mac'' = Some (Deployed True)"
proof -
  note t = deploy_mac_control_always_true[of world_all_down initial_state "[]" "systems ! 0" "workloads default_args"]
  from t have 1: "fst (deploy_mac_control world_all_down initial_state []) = True" by simp
  from t mac_type have 2: "fst (deploy_to_system world_all_down initial_state (systems ! 0) []) = True"
    by simp
  from t all_down_default_run have 3:
    "[''mac'' \<mapsto> Deployed True, ''development_dgx-spark'' \<mapsto> Deployed False,
      ''testing_dgx-spark'' \<mapsto> Deployed False,
      ''production_dgx-spark'' \<mapsto> Deployed False,
      ''dashboard'' \<mapsto> Dashboard dashboard_config] ''mac'' = Some (Deployed True)"
    by blast
  from 1 2 3 show ?thesis by simp
qed



text \<open>
  The parser accepts \<^verbatim>\<open>mac\<close> as a target, but no registry entry has that name
  (the local host is \<^verbatim>\<open>mac-studio\<close>): the lookup raises and the run ends with
  status 1 before any deployment.
\<close>

lemma main_target_mac_raises:
  assumes "target_system a = ''mac''" and "\<not> monitor_only a"
  shows "main w st a = Inl StopIteration \<and> exit_status (main w st a) = 1"
  using assms
  by (simp add: main_def exit_status_def target_choices_def next_where_def systems_def
      load_system_configs_def)




end
